theory Spec2Isabelle
  imports Complex_Main "HOL-Library.Sublist"
begin

section \<open>The registration surface: \<open>src/sfast/csrc/main.cpp\<close>\<close>

text \<open>
  The translation unit holds two registration blocks inside \<open>namespace sfast\<close>:
  \<^verbatim>\<open>
  PYBIND11_MODULE(TORCH_EXTENSION_NAME, m) {
    jit::initJITBindings(m);
    misc::initMiscBindings(m);
  }

  TORCH_LIBRARY(sfast, m) {
    operators::initCUDNNConvolutionBindings(m);
    operators::initCUDNNQLinearBindings(m);
    operators::initCUBLASGEMMBindings(m);
    operators::initFusedLinearBindings(m);
  }
  \<close>
  Each block receives a handle \<open>m\<close> by reference and passes it to a fixed sequence of
  initializers. The initializers are declared in headers that the file includes
  (\<open>jit/init.h\<close>, \<open>misc.h\<close>, \<open>operators/cudnn/cudnn_convolution.h\<close>,
  \<open>operators/cudnn/cudnn_qlinear.h\<close>, \<open>operators/cublas/cublas_gemm.h\<close>,
  \<open>operators/fused_linear.h\<close>); their bodies are not part of this file, so they are
  parameters of the model. A C++ call either returns or throws: an initializer maps the
  handle to \<open>Inr\<close> of the updated handle, or to \<open>Inl\<close> of the exception it throws.
\<close>

datatype binding_group =
    JITBindings
  | MiscBindings
  | CUDNNConvolutionBindings
  | CUDNNQLinearBindings
  | CUBLASGEMMBindings
  | FusedLinearBindings

type_synonym ('e, 'm) initializer = "'m \<Rightarrow> 'e + 'm"

text \<open>The functions of namespace \<open>operators\<close> that the \<open>TORCH_LIBRARY\<close> block calls.\<close>

record ('e, 'm) operators =
  initCUDNNConvolutionBindings :: "('e, 'm) initializer"
  initCUDNNQLinearBindings :: "('e, 'm) initializer"
  initCUBLASGEMMBindings :: "('e, 'm) initializer"
  initFusedLinearBindings :: "('e, 'm) initializer"

text \<open>The functions of namespaces \<open>jit\<close> and \<open>misc\<close> that the \<open>PYBIND11_MODULE\<close> block calls.\<close>

record ('e, 'm) python_bindings =
  initJITBindings :: "('e, 'm) initializer"
  initMiscBindings :: "('e, 'm) initializer"

text \<open>
  The run of a block: the initializers invoked so far, oldest first, and either the
  handle as the last of them left it or the exception that ended the block.
\<close>

type_synonym ('e, 'm) block_run = "binding_group list \<times> ('e + 'm)"

text \<open>
  One statement \<open>init(m);\<close> of a block. After an exception nothing more of the block is
  executed; otherwise the call is recorded and the initializer runs on the handle.
\<close>

definition call_init ::
  "binding_group \<Rightarrow> ('e, 'm) initializer \<Rightarrow> ('e, 'm) block_run \<Rightarrow> ('e, 'm) block_run" where
  "call_init g init r =
     (case snd r of
        Inl e \<Rightarrow> r
      | Inr m \<Rightarrow> (fst r @ [g], init m))"

definition PYBIND11_MODULE_sfast ::
  "('e, 'm) python_bindings \<Rightarrow> 'm \<Rightarrow> ('e, 'm) block_run" where
  "PYBIND11_MODULE_sfast py m =
     (let r0 = ([], Inr m);
          r1 = call_init JITBindings (initJITBindings py) r0;
          r2 = call_init MiscBindings (initMiscBindings py) r1
      in r2)"

definition TORCH_LIBRARY_sfast ::
  "('e, 'm) operators \<Rightarrow> 'm \<Rightarrow> ('e, 'm) block_run" where
  "TORCH_LIBRARY_sfast ops m =
     (let r0 = ([], Inr m);
          r1 = call_init CUDNNConvolutionBindings (initCUDNNConvolutionBindings ops) r0;
          r2 = call_init CUDNNQLinearBindings (initCUDNNQLinearBindings ops) r1;
          r3 = call_init CUBLASGEMMBindings (initCUBLASGEMMBindings ops) r2;
          r4 = call_init FusedLinearBindings (initFusedLinearBindings ops) r3
      in r4)"

text \<open>The order in which the \<open>TORCH_LIBRARY\<close> block names its provider groups.\<close>

definition provider_order :: "binding_group list" where
  "provider_order =
     [CUDNNConvolutionBindings, CUDNNQLinearBindings, CUBLASGEMMBindings, FusedLinearBindings]"

text \<open>
  A sample operator catalog for evaluating the block: the handle is the list of group
  names registered so far, and no initializer throws.
\<close>

definition sample_operators :: "(string, string list) operators" where
  "sample_operators =
     \<lparr> initCUDNNConvolutionBindings = (\<lambda>m. Inr (m @ [''cudnn_convolution''])),
       initCUDNNQLinearBindings = (\<lambda>m. Inr (m @ [''cudnn_qlinear''])),
       initCUBLASGEMMBindings = (\<lambda>m. Inr (m @ [''cublas_gemm''])),
       initFusedLinearBindings = (\<lambda>m. Inr (m @ [''fused_linear''])) \<rparr>"

section \<open>Kernel registry, kernel cache and dispatcher\<close>

text \<open>
  The registry, the cache and the dispatcher that the bindings above expose are not in
  \<open>main.cpp\<close>. The definitions of this section follow sections 3, 4.1, 4.4, 6 and 7 of
  the specification, one definition per sentence, and keep its names.
\<close>

text \<open>Modelled from the spec: the logical operators, one per kernel provider of section 6
  (convolution, quantized linear, general matrix multiply, fused linear with epilogue);
  their declarations are missing from the sources.\<close>

datatype logical_op = Convolution | QuantizedLinear | MatrixMultiply | FusedLinear

text \<open>Modelled from the spec: the element types a tensor can have; the host runtime's
  tensor type is missing from the sources.\<close>

datatype dtype = Float16 | BFloat16 | Float32 | Int8

text \<open>Modelled from the spec: the memory layout of a tensor, a field of the CacheKey
  (section 3); missing from the sources.\<close>

datatype layout = Contiguous | ChannelsLast

text \<open>Modelled from the spec: device identity, with the capability that a descriptor's
  device-capability range is compared with (section 3); the device type is missing.\<close>

record device =
  device_index :: nat
  device_capability :: nat

text \<open>Modelled from the spec: quantization parameters, scale and zero-point (glossary);
  the attribute type is missing.\<close>

record quantization =
  quant_scale :: rat
  quant_zero_point :: int

text \<open>Modelled from the spec: the per-call concrete tensor handed to the dispatcher
  (section 6: dtype, shape, memory layout, device); its contents are opaque to the
  dispatcher. The tensor type is missing.\<close>

record 'a tensor =
  tensor_dtype :: dtype
  tensor_shape :: "nat list"
  tensor_layout :: layout
  tensor_device :: device
  tensor_data :: 'a

text \<open>Modelled from the spec: the shape constraint of an envelope (section 2). The spec
  names the constraint without listing its forms; three simple forms stand for it, and
  no property below depends on which forms there are.\<close>

datatype shape_constraint = AnyShape | RankIs nat | InnermostMultipleOf nat

text \<open>Modelled from the spec: whether a concrete shape meets a shape constraint; missing
  from the sources.\<close>

fun shape_allowed :: "shape_constraint \<Rightarrow> nat list \<Rightarrow> bool" where
  "shape_allowed AnyShape s = True"
| "shape_allowed (RankIs r) s = (length s = r)"
| "shape_allowed (InnermostMultipleOf n) s = (s \<noteq> [] \<and> n dvd last s)"

text \<open>Modelled from the spec: the envelope a kernel supports, "(dtype, layout,
  device-capability, shape-constraint)" (section 2); its declaration is missing.\<close>

record envelope =
  env_dtypes :: "dtype set"
  env_layouts :: "layout set"
  env_capability_min :: nat
  env_capability_max :: nat
  env_shapes :: shape_constraint

text \<open>Modelled from the spec: KernelDescriptor, "a (logical operator, supported dtype set,
  supported layout set, device-capability range) tuple plus an opaque invocation entry
  point" (section 3); its declaration is missing. The entry point is a handle that the
  vendor provider resolves.\<close>

record KernelDescriptor =
  kd_op :: logical_op
  kd_envelope :: envelope
  kd_entry_point :: nat

text \<open>Modelled from the spec: CacheKey, "concrete shapes, dtypes, memory layout, device
  identity, and any algorithm-relevant attribute (e.g., quantization mode)" of "the
  operator's runtime signature" (sections 1 and 3); its declaration is missing. The
  logical operator is part of the signature: the cache is one table for all operators.\<close>

record CacheKey =
  key_op :: logical_op
  key_shapes :: "nat list list"
  key_dtypes :: "dtype list"
  key_layouts :: "layout list"
  key_devices :: "device list"
  key_quant :: "quantization option"

text \<open>Modelled from the spec: the prepared execution state of a CacheEntry, "selected
  algorithm variant, required scratch-buffer size" (section 3); missing from the
  sources.\<close>

record prepared_state =
  algorithm_variant :: nat
  scratch_bytes :: nat

text \<open>Modelled from the spec: CacheEntry, "the resolved KernelDescriptor plus any prepared
  execution state" (section 3); its declaration is missing.\<close>

record CacheEntry =
  entry_descriptor :: KernelDescriptor
  entry_prepared :: prepared_state

text \<open>Modelled from the spec: the Kernel Registry, an append-only catalog in registration
  order (section 4.1); missing from the sources.\<close>

type_synonym registry = "(logical_op \<times> KernelDescriptor) list"

text \<open>Modelled from the spec: \<open>candidates(logicalOp)\<close>, "the ordered list of registered
  descriptors for that operator, in registration order" (section 4.1); missing from
  the sources.\<close>

definition candidates :: "registry \<Rightarrow> logical_op \<Rightarrow> KernelDescriptor list" where
  "candidates reg lop = map snd (filter (\<lambda>r. fst r = lop) reg)"

text \<open>Modelled from the spec: the configuration error of section 7, ambiguous kernel
  registrations; missing from the sources.\<close>

datatype config_error = AmbiguousRegistration

text \<open>Modelled from the spec: \<open>register(logicalOp, descriptor)\<close>, which "appends a
  descriptor to the candidate list for that logical operator" and is rejected "if two
  descriptors for the same logical operator declare identical supported envelopes"
  (section 4.1); missing from the sources.\<close>

definition register ::
  "logical_op \<Rightarrow> KernelDescriptor \<Rightarrow> registry \<Rightarrow> config_error + registry" where
  "register lop d reg =
     (if kd_envelope d \<in> set (map kd_envelope (candidates reg lop))
      then Inl AmbiguousRegistration
      else Inr (reg @ [(lop, d)]))"

text \<open>Modelled from the spec: when a descriptor's "envelope covers the signature"
  (section 4.4): every dtype, layout, device capability and shape of the call lies in
  what the envelope supports. Missing from the sources.\<close>

definition covers :: "envelope \<Rightarrow> CacheKey \<Rightarrow> bool" where
  "covers env k =
     (list_all (\<lambda>d. d \<in> env_dtypes env) (key_dtypes k)
      \<and> list_all (\<lambda>l. l \<in> env_layouts env) (key_layouts k)
      \<and> list_all (\<lambda>dev. env_capability_min env \<le> device_capability dev
                        \<and> device_capability dev \<le> env_capability_max env) (key_devices k)
      \<and> list_all (shape_allowed (env_shapes env)) (key_shapes k))"

text \<open>Modelled from the spec: "compute a CacheKey from the node's concrete runtime
  inputs" (section 4.4); missing from the sources.\<close>

definition compute_key ::
  "logical_op \<Rightarrow> 'a tensor list \<Rightarrow> quantization option \<Rightarrow> CacheKey" where
  "compute_key lop inputs q =
     \<lparr> key_op = lop,
       key_shapes = map tensor_shape inputs,
       key_dtypes = map tensor_dtype inputs,
       key_layouts = map tensor_layout inputs,
       key_devices = map tensor_device inputs,
       key_quant = q \<rparr>"

text \<open>Modelled from the spec: the error codes a vendor kernel provider returns,
  "unsupported configuration, insufficient workspace, device fault" (section 6); missing
  from the sources.\<close>

datatype provider_error = UnsupportedConfiguration | InsufficientWorkspace | DeviceFault

text \<open>Modelled from the spec: the vendor side, opaque to the engine: the invocation
  interface "returning a completion signal or an error code" (section 6) and the one-time
  preparation, "algorithm probing, workspace sizing" (section 4.4). Both are parameters;
  the vendor libraries are external.\<close>

record ('a, 'o) vendor =
  invoke :: "nat \<Rightarrow> prepared_state \<Rightarrow> 'a tensor list \<Rightarrow> quantization option
               \<Rightarrow> provider_error + 'o"
  prepare :: "KernelDescriptor \<Rightarrow> CacheKey \<Rightarrow> prepared_state"

text \<open>Modelled from the spec: what a dispatcher call returns to its caller (sections 7
  and 9): the kernel's completion, the recoverable dispatch-miss "unsupported", or an
  execution-time fault, fatal for that call. Missing from the sources.\<close>

datatype 'o dispatch_result = Completed 'o | DispatchUnsupported | ExecutionFault provider_error

text \<open>Modelled from the spec: the process-scoped state object holding registry and cache
  (section 9); missing from the sources.\<close>

record engine =
  eng_registry :: registry
  eng_cache :: "(CacheKey \<times> CacheEntry) list"

text \<open>Modelled from the spec: the state object at its "defined initialization (at module
  load)" (section 9), with nothing registered and nothing cached; missing from the
  sources.\<close>

definition initial_engine :: engine where
  "initial_engine = \<lparr> eng_registry = [], eng_cache = [] \<rparr>"

text \<open>Modelled from the spec: "execute the cached kernel with the cached preparation
  state" (section 4.4); a kernel that fails during execution is "propagated to the host
  runtime as a hard failure for that single operator invocation" (section 7), whatever
  its error code. Missing from the sources.\<close>

definition execute ::
  "('a, 'o) vendor \<Rightarrow> CacheEntry \<Rightarrow> 'a tensor list \<Rightarrow> quantization option
     \<Rightarrow> 'o dispatch_result" where
  "execute v e inputs q =
     (case invoke v (kd_entry_point (entry_descriptor e)) (entry_prepared e) inputs q of
        Inl err \<Rightarrow> ExecutionFault err
      | Inr out \<Rightarrow> Completed out)"

text \<open>Modelled from the spec: the Dispatcher's execution-time contract (section 4.4).
  Compute the key and look the cache up; on a hit execute the cached entry; on a miss
  take the candidates whose envelope covers the signature: with none, fail with the
  unsupported condition; otherwise select the first registered, prepare, insert a new
  entry and execute. Missing from the sources.\<close>

definition dispatch ::
  "('a, 'o) vendor \<Rightarrow> engine \<Rightarrow> logical_op \<Rightarrow> 'a tensor list \<Rightarrow> quantization option
     \<Rightarrow> 'o dispatch_result \<times> engine" where
  "dispatch v st lop inputs q =
     (let k = compute_key lop inputs q in
      case map_of (eng_cache st) k of
        Some e \<Rightarrow> (execute v e inputs q, st)
      | None \<Rightarrow>
          (case filter (\<lambda>d. covers (kd_envelope d) k) (candidates (eng_registry st) lop) of
             [] \<Rightarrow> (DispatchUnsupported, st)
           | d # ds \<Rightarrow>
               (let e = \<lparr> entry_descriptor = d, entry_prepared = prepare v d k \<rparr>
                in (execute v e inputs q, st\<lparr> eng_cache := eng_cache st @ [(k, e)] \<rparr>))))"

text \<open>Modelled from the spec: explicit invalidation, which ends the lifetime of a
  CacheEntry (section 3); missing from the sources.\<close>

definition invalidate :: "CacheKey \<Rightarrow> engine \<Rightarrow> engine" where
  "invalidate k st = st\<lparr> eng_cache := filter (\<lambda>c. fst c \<noteq> k) (eng_cache st) \<rparr>"

text \<open>Modelled from the spec: what can happen to an engine in its lifetime: a kernel is
  registered, a node is dispatched, a cache entry is invalidated. Missing from the
  sources.\<close>

datatype 'a event =
    Register logical_op KernelDescriptor
  | Dispatch logical_op "'a tensor list" "quantization option"
  | Invalidate CacheKey

text \<open>Modelled from the spec: the effect of one event on the engine. A rejected
  registration is a configuration error, "fatal at startup" (section 7), and is returned
  in place of a state. Missing from the sources.\<close>

fun step :: "('a, 'o) vendor \<Rightarrow> engine \<Rightarrow> 'a event \<Rightarrow> config_error + engine" where
  "step v st (Register lop d) =
     (case register lop d (eng_registry st) of
        Inl err \<Rightarrow> Inl err
      | Inr reg \<Rightarrow> Inr (st\<lparr> eng_registry := reg \<rparr>))"
| "step v st (Dispatch lop inputs q) = Inr (snd (dispatch v st lop inputs q))"
| "step v st (Invalidate k) = Inr (invalidate k st)"

text \<open>Modelled from the spec: the engine's lifetime as a sequence of events, ended by the
  first configuration error; missing from the sources.\<close>

fun run :: "('a, 'o) vendor \<Rightarrow> engine \<Rightarrow> 'a event list \<Rightarrow> config_error + engine" where
  "run v st [] = Inr st"
| "run v st (ev # evs) =
     (case step v st ev of
        Inl err \<Rightarrow> Inl err
      | Inr st' \<Rightarrow> run v st' evs)"

text \<open>
  The invariant of the cache: every entry holds a descriptor that is registered for the
  operator of its key and whose envelope covers the key.
\<close>

definition cache_sound :: "engine \<Rightarrow> bool" where
  "cache_sound st =
     (\<forall>(k, e) \<in> set (eng_cache st).
        entry_descriptor e \<in> set (candidates (eng_registry st) (key_op k))
        \<and> covers (kd_envelope (entry_descriptor e)) k)"

text \<open>
  A sample engine for evaluating the dispatcher: one half-precision matrix-multiply
  kernel for rank-2 contiguous tensors, and a vendor whose kernels complete with their
  entry point as output.
\<close>

definition sample_gemm_fp16 :: KernelDescriptor where
  "sample_gemm_fp16 =
     \<lparr> kd_op = MatrixMultiply,
       kd_envelope = \<lparr> env_dtypes = {Float16, BFloat16}, env_layouts = {Contiguous},
                       env_capability_min = 70, env_capability_max = 90,
                       env_shapes = RankIs 2 \<rparr>,
       kd_entry_point = 1 \<rparr>"

definition sample_vendor :: "(unit, nat) vendor" where
  "sample_vendor =
     \<lparr> invoke = (\<lambda>entry prep inputs q. Inr entry),
       prepare = (\<lambda>d k. \<lparr> algorithm_variant = 0, scratch_bytes = 0 \<rparr>) \<rparr>"

definition sample_tensor :: "dtype \<Rightarrow> nat list \<Rightarrow> unit tensor" where
  "sample_tensor dt shp =
     \<lparr> tensor_dtype = dt, tensor_shape = shp, tensor_layout = Contiguous,
       tensor_device = \<lparr> device_index = 0, device_capability = 80 \<rparr>,
       tensor_data = () \<rparr>"

definition sample_events :: "unit event list" where
  "sample_events =
     [Register MatrixMultiply sample_gemm_fp16,
      Dispatch MatrixMultiply [sample_tensor Float16 [2, 4], sample_tensor Float16 [4, 3]] None]"

definition sample_engine :: engine where
  "sample_engine =
     \<lparr> eng_registry = [(MatrixMultiply, sample_gemm_fp16)],
       eng_cache =
         [(compute_key MatrixMultiply
             [sample_tensor Float16 [2, 4], sample_tensor Float16 [4, 3]] None,
           \<lparr> entry_descriptor = sample_gemm_fp16,
             entry_prepared = \<lparr> algorithm_variant = 0, scratch_bytes = 0 \<rparr> \<rparr>)] \<rparr>"

section \<open>Properties of the registration block\<close>

lemma call_init_after_throw: "call_init g init (tr, Inl e) = (tr, Inl e)"
  by (simp add: call_init_def)

lemma call_init_on_handle: "call_init g init (tr, Inr m) = (tr @ [g], init m)"
  by (simp add: call_init_def)

text \<open>
  Whatever the initializers do, the block never invokes anything but the four provider
  initializers, never out of order and never twice: the calls made are always an initial
  segment of \<open>provider_order\<close>.
\<close>

lemma torch_library_calls_prefix:
  "prefix (fst (TORCH_LIBRARY_sfast ops m)) provider_order"
proof -
  obtain a where a: "initCUDNNConvolutionBindings ops m = a" by simp
  show ?thesis
  proof (cases a)
    case (Inl e)
    with a show ?thesis
      by (simp add: TORCH_LIBRARY_sfast_def provider_order_def call_init_def)
  next
    case (Inr m1)
    note m1 = this
    show ?thesis
    proof (cases "initCUDNNQLinearBindings ops m1")
      case (Inl e)
      with a m1 show ?thesis
        by (simp add: TORCH_LIBRARY_sfast_def provider_order_def call_init_def)
    next
      case (Inr m2)
      note m2 = this
      show ?thesis
      proof (cases "initCUBLASGEMMBindings ops m2")
        case (Inl e)
        with a m1 m2 show ?thesis
          by (simp add: TORCH_LIBRARY_sfast_def provider_order_def call_init_def)
      next
        case (Inr m3)
        with a m1 m2 show ?thesis
          by (simp add: TORCH_LIBRARY_sfast_def provider_order_def call_init_def)
      qed
    qed
  qed
qed

text \<open>
  C10. When the operator library \<open>sfast\<close> is loaded and every initializer returns, the
  \<open>TORCH_LIBRARY\<close> block has invoked exactly four provider initializers, in the order
  convolution, quantized linear, cuBLAS GEMM, fused linear, each exactly once and each on
  the handle its predecessor left. The run is a function of the initializers and the
  handle alone, so it is the same on every load.
\<close>

theorem torch_library_registers_four_providers_in_order:
  assumes "initCUDNNConvolutionBindings ops m = Inr m1"
    and "initCUDNNQLinearBindings ops m1 = Inr m2"
    and "initCUBLASGEMMBindings ops m2 = Inr m3"
    and "initFusedLinearBindings ops m3 = Inr m4"
  shows "TORCH_LIBRARY_sfast ops m =
           ([CUDNNConvolutionBindings, CUDNNQLinearBindings,
             CUBLASGEMMBindings, FusedLinearBindings], Inr m4)
         \<and> length (fst (TORCH_LIBRARY_sfast ops m)) = 4
         \<and> count_list (fst (TORCH_LIBRARY_sfast ops m)) CUDNNConvolutionBindings = 1
         \<and> count_list (fst (TORCH_LIBRARY_sfast ops m)) CUDNNQLinearBindings = 1
         \<and> count_list (fst (TORCH_LIBRARY_sfast ops m)) CUBLASGEMMBindings = 1
         \<and> count_list (fst (TORCH_LIBRARY_sfast ops m)) FusedLinearBindings = 1
         \<and> count_list (fst (TORCH_LIBRARY_sfast ops m)) JITBindings = 0
         \<and> count_list (fst (TORCH_LIBRARY_sfast ops m)) MiscBindings = 0"
proof -
  have run: "TORCH_LIBRARY_sfast ops m =
      ([CUDNNConvolutionBindings, CUDNNQLinearBindings,
        CUBLASGEMMBindings, FusedLinearBindings], Inr m4)"
    using assms by (simp add: TORCH_LIBRARY_sfast_def call_init_def)
  show ?thesis
    unfolding run by simp
qed

theorem torch_library_registers_four_providers_in_order_witness:
  "TORCH_LIBRARY_sfast sample_operators [] =
     ([CUDNNConvolutionBindings, CUDNNQLinearBindings,
       CUBLASGEMMBindings, FusedLinearBindings],
      Inr [''cudnn_convolution'', ''cudnn_qlinear'', ''cublas_gemm'', ''fused_linear''])"
  using torch_library_registers_four_providers_in_order
    [of sample_operators "[]" "[''cudnn_convolution'']"
        "[''cudnn_convolution'', ''cudnn_qlinear'']"
        "[''cudnn_convolution'', ''cudnn_qlinear'', ''cublas_gemm'']"
        "[''cudnn_convolution'', ''cudnn_qlinear'', ''cublas_gemm'', ''fused_linear'']"]
  by (simp add: sample_operators_def)

section \<open>Properties of the dispatcher\<close>

lemma key_op_compute_key: "key_op (compute_key lop inputs q) = lop"
  by (simp add: compute_key_def)

lemma cache_sound_initial: "cache_sound initial_engine"
  by (simp add: cache_sound_def initial_engine_def)

lemma candidates_append:
  "candidates (reg @ [(lop, d)]) lop' =
     (if lop = lop' then candidates reg lop' @ [d] else candidates reg lop')"
  by (simp add: candidates_def)

text \<open>Registration only appends, so it keeps every cached descriptor registered.\<close>

lemma cache_sound_register:
  assumes "cache_sound st" and "register lop d (eng_registry st) = Inr reg"
  shows "cache_sound (st\<lparr> eng_registry := reg \<rparr>)"
proof -
  from assms(2) have reg: "reg = eng_registry st @ [(lop, d)]"
    by (simp add: register_def split: if_splits)
  show ?thesis
    using assms(1) unfolding cache_sound_def reg
    by (auto simp: candidates_append)
qed

text \<open>A miss inserts only a descriptor taken from the covering candidates.\<close>

lemma cache_sound_dispatch:
  assumes "cache_sound st"
  shows "cache_sound (snd (dispatch v st lop inputs q))"
proof (cases "map_of (eng_cache st) (compute_key lop inputs q)")
  case (Some e)
  with assms show ?thesis by (simp add: dispatch_def)
next
  case None
  show ?thesis
  proof (cases "filter (\<lambda>d. covers (kd_envelope d) (compute_key lop inputs q))
                  (candidates (eng_registry st) lop)")
    case Nil
    with None assms show ?thesis by (simp add: dispatch_def)
  next
    case (Cons d ds)
    then have "d \<in> set (filter (\<lambda>d. covers (kd_envelope d) (compute_key lop inputs q))
                  (candidates (eng_registry st) lop))"
      by simp
    then have d: "d \<in> set (candidates (eng_registry st) lop)"
        "covers (kd_envelope d) (compute_key lop inputs q)"
      by simp_all
    from None Cons have
      "snd (dispatch v st lop inputs q) =
         st\<lparr> eng_cache := eng_cache st @
           [(compute_key lop inputs q,
             \<lparr> entry_descriptor = d,
               entry_prepared = prepare v d (compute_key lop inputs q) \<rparr>)] \<rparr>"
      by (simp add: dispatch_def Let_def)
    with assms d show ?thesis
      by (auto simp: cache_sound_def key_op_compute_key)
  qed
qed

lemma cache_sound_invalidate:
  assumes "cache_sound st"
  shows "cache_sound (invalidate k st)"
  using assms by (auto simp: cache_sound_def invalidate_def)

lemma cache_sound_run:
  "cache_sound st \<Longrightarrow> run v st evs = Inr st' \<Longrightarrow> cache_sound st'"
proof (induction evs arbitrary: st)
  case Nil
  then show ?case by simp
next
  case (Cons ev evs)
  show ?case
  proof (cases ev)
    case (Register lop d)
    with Cons.prems(2) obtain reg where
      reg: "register lop d (eng_registry st) = Inr reg"
      and rest: "run v (st\<lparr> eng_registry := reg \<rparr>) evs = Inr st'"
      by (auto split: sum.splits)
    from cache_sound_register [OF Cons.prems(1) reg] rest show ?thesis
      by (rule Cons.IH)
  next
    case (Dispatch lop inputs q)
    with Cons.prems(2) have
      rest: "run v (snd (dispatch v st lop inputs q)) evs = Inr st'"
      by simp
    from cache_sound_dispatch [OF Cons.prems(1)] rest show ?thesis
      by (rule Cons.IH)
  next
    case (Invalidate k)
    with Cons.prems(2) have rest: "run v (invalidate k st) evs = Inr st'"
      by simp
    from cache_sound_invalidate [OF Cons.prems(1)] rest show ?thesis
      by (rule Cons.IH)
  qed
qed

text \<open>An executed kernel completes or faults; it never reports the dispatch-miss.\<close>

lemma execute_not_unsupported: "execute v e inputs q \<noteq> DispatchUnsupported"
  by (simp add: execute_def split: sum.splits)

lemma sample_run: "run sample_vendor initial_engine sample_events = Inr sample_engine"
  by (simp add: sample_events_def sample_engine_def initial_engine_def register_def
      candidates_def dispatch_def compute_key_def covers_def sample_gemm_fp16_def
      sample_tensor_def sample_vendor_def execute_def Let_def)

text \<open>
  C4. In every state the engine can reach from module load by registrations, dispatches
  and invalidations, a dispatcher call returns the recoverable unsupported condition
  exactly when no descriptor registered for the node's operator has an envelope that
  covers the call's signature. The call returns a value to its caller in either case,
  and a call that returns the unsupported condition leaves registry and cache as they
  were, so the caller can fall back and later calls proceed.
\<close>

theorem dispatch_unsupported_iff_no_candidate:
  assumes "run v initial_engine evs = Inr st"
  shows "(fst (dispatch v st lop inputs q) = DispatchUnsupported)
           = list_all (\<lambda>d. \<not> covers (kd_envelope d) (compute_key lop inputs q))
               (candidates (eng_registry st) lop)
         \<and> (fst (dispatch v st lop inputs q) = DispatchUnsupported
              \<longrightarrow> snd (dispatch v st lop inputs q) = st)"
proof -
  let ?k = "compute_key lop inputs q"
  let ?cs = "filter (\<lambda>d. covers (kd_envelope d) ?k) (candidates (eng_registry st) lop)"
  have sound: "cache_sound st"
    using cache_sound_initial assms by (rule cache_sound_run)
  have none: "(?cs = []) = list_all (\<lambda>d. \<not> covers (kd_envelope d) ?k)
                 (candidates (eng_registry st) lop)"
    by (simp add: filter_empty_conv list_all_iff)
  show ?thesis
  proof (cases "map_of (eng_cache st) ?k")
    case (Some e)
    then have "(?k, e) \<in> set (eng_cache st)"
      by (rule map_of_SomeD)
    with sound have "entry_descriptor e \<in> set (candidates (eng_registry st) lop)"
      and "covers (kd_envelope (entry_descriptor e)) ?k"
      by (auto simp: cache_sound_def key_op_compute_key)
    then have "?cs \<noteq> []"
      by (auto simp: filter_empty_conv)
    moreover from Some have "fst (dispatch v st lop inputs q) = execute v e inputs q"
      by (simp add: dispatch_def)
    ultimately show ?thesis
      using none by (simp add: execute_not_unsupported)
  next
    case None
    show ?thesis
    proof (cases ?cs)
      case Nil
      with None none show ?thesis by (simp add: dispatch_def)
    next
      case (Cons d ds)
      with None have "fst (dispatch v st lop inputs q) =
          execute v \<lparr> entry_descriptor = d, entry_prepared = prepare v d ?k \<rparr> inputs q"
        by (simp add: dispatch_def Let_def)
      with Cons none show ?thesis by (simp add: execute_not_unsupported)
    qed
  qed
qed

theorem dispatch_unsupported_iff_no_candidate_witness:
  "run sample_vendor initial_engine sample_events = Inr sample_engine
   \<and> fst (dispatch sample_vendor sample_engine MatrixMultiply
           [sample_tensor Float32 [2, 4], sample_tensor Float32 [4, 3]] None)
       = DispatchUnsupported
   \<and> fst (dispatch sample_vendor sample_engine MatrixMultiply
           [sample_tensor Float16 [8, 4], sample_tensor Float16 [4, 3]] None)
       = Completed 1"
proof -
  let ?f32 = "[sample_tensor Float32 [2, 4], sample_tensor Float32 [4, 3]]"
  have none: "list_all
      (\<lambda>d. \<not> covers (kd_envelope d) (compute_key MatrixMultiply ?f32 None))
      (candidates (eng_registry sample_engine) MatrixMultiply)"
    by (simp add: sample_engine_def candidates_def compute_key_def covers_def
        sample_gemm_fp16_def sample_tensor_def)
  have miss: "fst (dispatch sample_vendor sample_engine MatrixMultiply ?f32 None)
      = DispatchUnsupported"
    using dispatch_unsupported_iff_no_candidate
      [OF sample_run, of MatrixMultiply ?f32 None] none
    by simp
  have served: "fst (dispatch sample_vendor sample_engine MatrixMultiply
      [sample_tensor Float16 [8, 4], sample_tensor Float16 [4, 3]] None) = Completed 1"
    by (simp add: sample_engine_def candidates_def dispatch_def compute_key_def
        covers_def sample_gemm_fp16_def sample_tensor_def sample_vendor_def execute_def
        Let_def)
  show ?thesis
    using sample_run miss served by simp
qed

end
